theory Spec2Isabelle
  imports Main "HOL-Library.Word" "HOL-Library.Sublist"
begin

section \<open>The queue package of tsuru (queue/queue.go)\<close>

text \<open>
  The package keeps one shared beanstalk connection (\<open>conn\<close>, guarded by \<open>mut\<close>) and
  offers \<open>Put\<close>, \<open>Get\<close>, \<open>Delete\<close> and \<open>Message.Release\<close>. Everything the package
  calls but does not own (the configuration source, the beanstalk client, gob, fmt and
  time) is a parameter of the model: an environment record of functions over an
  abstract world state \<open>'w\<close>. Each function of the source becomes a function from the
  program state to a result and the next state; a call of the source that may never
  return has an \<open>option\<close> result, \<open>None\<close> meaning that it does not return.
\<close>

subsection \<open>Go values\<close>

type_synonym bytes = "8 word list"
type_synonym uint64 = "64 word"
type_synonym uint32 = "32 word"

text \<open>\<open>time.Duration\<close> is an \<open>int64\<close> counting nanoseconds.\<close>

type_synonym duration = "64 word"

definition Second :: duration where
  "Second = 1000000000"

text \<open>
  A Go \<open>error\<close> value. \<open>io.EOF\<close> is a sentinel the source compares by identity
  (\<open>err != io.EOF\<close>); every other error is known to the package only by its text.
\<close>

datatype error = EOF | ErrorString string

fun Error :: "error \<Rightarrow> string" where
  "Error EOF = ''EOF''"
| "Error (ErrorString s) = s"

text \<open>
  \<open>regexp.MustCompile(`TIMED_OUT$`).MatchString(s)\<close>: the pattern is a literal followed
  by \<open>$\<close>, which without the multi-line flag matches at the end of the text only.
  The search is not anchored at the start: some position of \<open>s\<close> starts a match, which
  is the literal and then the end of \<open>s\<close>.
\<close>

definition MatchString_end :: "string \<Rightarrow> string \<Rightarrow> bool" where
  "MatchString_end lit s = list_ex (\<lambda>i. drop i s = lit) [0 ..< Suc (length s)]"

definition timeoutRegexp :: "string \<Rightarrow> bool" where
  "timeoutRegexp s = MatchString_end ''TIMED_OUT'' s"

definition notFoundRegexp :: "string \<Rightarrow> bool" where
  "notFoundRegexp s = MatchString_end ''not found'' s"

subsection \<open>Message\<close>

text \<open>
  \<open>type Message struct { Action string; Args []string; id uint64 }\<close>. The field
  \<open>id\<close> of the source is \<open>id_field\<close> here (\<open>id\<close> is the identity function of HOL).
\<close>

record Message =
  Action :: string
  Args :: "string list"
  id_field :: uint64

text \<open>The zero value that \<open>var msg Message\<close> declares.\<close>

definition zero_Message :: Message where
  "zero_Message = \<lparr>Action = [], Args = [], id_field = 0\<rparr>"

text \<open>
  What gob sees of a \<open>Message\<close>. gob walks the struct by reflection and transmits the
  exported fields only; a field is exported when its name starts with an upper-case
  letter.
\<close>

datatype gob_value = GobString string | GobStrings "string list" | GobUint uint64

definition struct_fields :: "Message \<Rightarrow> (string \<times> gob_value) list" where
  "struct_fields m =
     [(''Action'', GobString (Action m)),
      (''Args'', GobStrings (Args m)),
      (''id'', GobUint (id_field m))]"

definition is_exported :: "string \<Rightarrow> bool" where
  "is_exported name =
     (case name of [] \<Rightarrow> False
      | c # _ \<Rightarrow> (65::nat) \<le> of_char c \<and> of_char c \<le> (90::nat))"

definition gob_fields :: "Message \<Rightarrow> (string \<times> gob_value) list" where
  "gob_fields m = filter (\<lambda>f. is_exported (fst f)) (struct_fields m)"

subsection \<open>The environment and the program state\<close>

text \<open>A \<open>*beanstalk.Conn\<close>: connection objects are told apart by a number.\<close>

type_synonym Conn = nat

text \<open>The calls that leave the package, in the order they are made.\<close>

datatype call =
    CallGetString string
  | CallDial string string
  | CallListTubes Conn
  | CallPut Conn bytes uint32 duration duration
  | CallReserve Conn duration
  | CallDelete Conn uint64
  | CallRelease Conn uint64 uint32 duration

text \<open>
  The collaborators. Results have the shape of the Go signatures where the source
  reads more than one of the returned values: \<open>Conn.Put\<close> returns \<open>(id, err)\<close> and
  \<open>Conn.Reserve\<close> returns \<open>(id, body, err)\<close>. \<open>config.GetString\<close> and
  \<open>beanstalk.Dial\<close> return a value or an error (with an error, \<open>Dial\<close> returns
  the nil connection). \<open>gob_Decode body msg\<close> is the content of \<open>msg\<close> after
  \<open>gob.NewDecoder(bytes.NewReader(body)).Decode(&msg)\<close>, with the error returned.
\<close>

record 'w env =
  config_GetString :: "string \<Rightarrow> 'w \<Rightarrow> (error + string) \<times> 'w"
  beanstalk_Dial :: "string \<Rightarrow> string \<Rightarrow> 'w \<Rightarrow> (error + Conn) \<times> 'w"
  Conn_ListTubes :: "Conn \<Rightarrow> 'w \<Rightarrow> error option \<times> 'w"
  Conn_Put :: "Conn \<Rightarrow> bytes \<Rightarrow> uint32 \<Rightarrow> duration \<Rightarrow> duration \<Rightarrow> 'w
                \<Rightarrow> (uint64 \<times> error option) \<times> 'w"
  Conn_Reserve :: "Conn \<Rightarrow> duration \<Rightarrow> 'w \<Rightarrow> (uint64 \<times> bytes \<times> error option) \<times> 'w"
  Conn_Delete :: "Conn \<Rightarrow> uint64 \<Rightarrow> 'w \<Rightarrow> error option \<times> 'w"
  Conn_Release :: "Conn \<Rightarrow> uint64 \<Rightarrow> uint32 \<Rightarrow> duration \<Rightarrow> 'w \<Rightarrow> error option \<times> 'w"
  gob_Encode :: "(string \<times> gob_value) list \<Rightarrow> error + bytes"
  gob_Decode :: "bytes \<Rightarrow> Message \<Rightarrow> Message \<times> error option"
  Duration_String :: "duration \<Rightarrow> string"
  fmt_q :: "bytes \<Rightarrow> string"

text \<open>
  The program state: the package variable \<open>conn\<close> (\<open>None\<close> is nil), the world of the
  collaborators, and the calls made so far.
\<close>

record 'w state =
  conn :: "Conn option"
  world :: "'w"
  trace :: "call list"

definition perform ::
  "call \<Rightarrow> ('w \<Rightarrow> 'r \<times> 'w) \<Rightarrow> ('w, 'z) state_scheme \<Rightarrow> 'r \<times> ('w, 'z) state_scheme" where
  "perform c f s =
     (case f (world s) of (r, w') \<Rightarrow> (r, s\<lparr>world := w', trace := trace s @ [c]\<rparr>))"

subsection \<open>connection\<close>

text \<open>
  Lines 124-149. The mutex operations do not change what a single caller computes and
  are left out of this sequential function. When \<open>ListTubes\<close> fails the source sets
  \<open>conn = nil\<close> and returns \<open>connection()\<close>: a recursive call with nothing that
  counts the attempts, so the function is partial.
\<close>

partial_function (option) connection ::
  "'w env \<Rightarrow> 'w state \<Rightarrow> ((error + Conn) \<times> 'w state) option"
where
  "connection E s =
     (case (case conn s of
              None \<Rightarrow>
                (case perform (CallGetString ''queue-server'')
                        (config_GetString E ''queue-server'') s of
                   (Inl err, s1) \<Rightarrow>
                     Inl (Inl (ErrorString
                       ''\"queue-server\" is not defined in config file.''), s1)
                 | (Inr addr, s1) \<Rightarrow>
                     (case perform (CallDial ''tcp'' addr) (beanstalk_Dial E ''tcp'' addr) s1 of
                        (Inl err, s2) \<Rightarrow> Inl (Inl err, s2)
                      | (Inr c, s2) \<Rightarrow> Inr (c, s2\<lparr>conn := Some c\<rparr>)))
            | Some c \<Rightarrow> Inr (c, s)) of
        Inl r \<Rightarrow> Some r
      | Inr (c, s3) \<Rightarrow>
          (case perform (CallListTubes c) (Conn_ListTubes E c) s3 of
             (Some err, s4) \<Rightarrow> connection E (s4\<lparr>conn := None\<rparr>)
           | (None, s4) \<Rightarrow> Some (Inr c, s4)))"

declare connection.simps [code]

text \<open>
  One pass through the body of \<open>connection\<close>: \<open>Inl\<close> is the value a \<open>return\<close> of
  lines 134, 139 or 148 gives, \<open>Inr\<close> is the state in which line 145 calls
  \<open>connection()\<close> again.
\<close>

definition attempt :: "'w env \<Rightarrow> 'w state \<Rightarrow> ((error + Conn) \<times> 'w state) + 'w state" where
  "attempt E s =
     (case (case conn s of
              None \<Rightarrow>
                (case perform (CallGetString ''queue-server'')
                        (config_GetString E ''queue-server'') s of
                   (Inl err, s1) \<Rightarrow>
                     Inl (Inl (ErrorString
                       ''\"queue-server\" is not defined in config file.''), s1)
                 | (Inr addr, s1) \<Rightarrow>
                     (case perform (CallDial ''tcp'' addr) (beanstalk_Dial E ''tcp'' addr) s1 of
                        (Inl err, s2) \<Rightarrow> Inl (Inl err, s2)
                      | (Inr c, s2) \<Rightarrow> Inr (c, s2\<lparr>conn := Some c\<rparr>)))
            | Some c \<Rightarrow> Inr (c, s)) of
        Inl r \<Rightarrow> Inl r
      | Inr (c, s3) \<Rightarrow>
          (case perform (CallListTubes c) (Conn_ListTubes E c) s3 of
             (Some err, s4) \<Rightarrow> Inr (s4\<lparr>conn := None\<rparr>)
           | (None, s4) \<Rightarrow> Inl (Inr c, s4)))"

text \<open>\<open>connection\<close> cut off after \<open>n\<close> passes: \<open>None\<close> when more are needed.\<close>

fun connection_upto :: "nat \<Rightarrow> 'w env \<Rightarrow> 'w state \<Rightarrow> ((error + Conn) \<times> 'w state) option" where
  "connection_upto 0 E s = None"
| "connection_upto (Suc n) E s =
     (case attempt E s of Inl r \<Rightarrow> Some r | Inr s' \<Rightarrow> connection_upto n E s')"

subsection \<open>Release, Put, Get, Delete\<close>

text \<open>Lines 53-65. The result is the returned \<open>error\<close> (\<open>None\<close> is nil).\<close>

definition Release :: "'w env \<Rightarrow> Message \<Rightarrow> 'w state \<Rightarrow> (error option \<times> 'w state) option" where
  "Release E m s =
     (if id_field m = 0 then Some (Some (ErrorString ''Unknown message.''), s)
      else
        (case connection E s of
           None \<Rightarrow> None
         | Some (Inl err, s1) \<Rightarrow> Some (Some err, s1)
         | Some (Inr c, s1) \<Rightarrow>
             (case perform (CallRelease c (id_field m) 1 0)
                     (Conn_Release E c (id_field m) 1 0) s1 of
                (Some err, s2) \<Rightarrow>
                  if notFoundRegexp (Error err)
                  then Some (Some (ErrorString ''Message not found.''), s2)
                  else Some (Some err, s2)
              | (None, s2) \<Rightarrow> Some (None, s2))))"

text \<open>
  Lines 68-81. \<open>Put\<close> writes through the pointer it is given: the result carries the
  message as the caller finds it afterwards. \<open>60e9\<close> is the time-to-run in nanoseconds.
\<close>

definition Put ::
  "'w env \<Rightarrow> Message \<Rightarrow> 'w state \<Rightarrow> (error option \<times> Message \<times> 'w state) option" where
  "Put E msg s =
     (case connection E s of
        None \<Rightarrow> None
      | Some (Inl err, s1) \<Rightarrow> Some (Some err, msg, s1)
      | Some (Inr c, s1) \<Rightarrow>
          (case gob_Encode E (gob_fields msg) of
             Inl err \<Rightarrow> Some (Some err, msg, s1)
           | Inr buf \<Rightarrow>
               (case perform (CallPut c buf 1 0 60000000000)
                       (Conn_Put E c buf 1 0 60000000000) s1 of
                  ((i, err), s2) \<Rightarrow> Some (err, msg\<lparr>id_field := i\<rparr>, s2))))"

text \<open>Lines 84-104. The result is the pair \<open>(*Message, error)\<close>.\<close>

definition Get ::
  "'w env \<Rightarrow> duration \<Rightarrow> 'w state \<Rightarrow> ((Message option \<times> error option) \<times> 'w state) option" where
  "Get E timeout s =
     (case connection E s of
        None \<Rightarrow> None
      | Some (Inl err, s1) \<Rightarrow> Some ((None, Some err), s1)
      | Some (Inr c, s1) \<Rightarrow>
          (case perform (CallReserve c timeout) (Conn_Reserve E c timeout) s1 of
             ((i, body, Some err), s2) \<Rightarrow>
               if timeoutRegexp (Error err)
               then Some ((None, Some (ErrorString
                      (''Timed out waiting for message after ''
                         @ Duration_String E timeout @ ''.''))), s2)
               else Some ((None, Some err), s2)
           | ((i, body, None), s2) \<Rightarrow>
               (case gob_Decode E body zero_Message of
                  (msg, err) \<Rightarrow>
                    if err \<noteq> None \<and> err \<noteq> Some EOF
                    then
                      (case perform (CallDelete c i) (Conn_Delete E c i) s2 of
                         (derr, s3) \<Rightarrow>
                           Some ((None, Some (ErrorString
                             (''Invalid message: '' @ fmt_q E body))), s3))
                    else Some ((Some (msg\<lparr>id_field := i\<rparr>), None), s2))))"

text \<open>Lines 110-122. The connection is acquired before the id is looked at.\<close>

definition Delete :: "'w env \<Rightarrow> Message \<Rightarrow> 'w state \<Rightarrow> (error option \<times> 'w state) option" where
  "Delete E msg s =
     (case connection E s of
        None \<Rightarrow> None
      | Some (Inl err, s1) \<Rightarrow> Some (Some err, s1)
      | Some (Inr c, s1) \<Rightarrow>
          if id_field msg = 0 then Some (Some (ErrorString ''Unknown message.''), s1)
          else
            (case perform (CallDelete c (id_field msg)) (Conn_Delete E c (id_field msg)) s1 of
               (Some err, s2) \<Rightarrow>
                 if notFoundRegexp (Error err)
                 then Some (Some (ErrorString ''Message not found.''), s2)
                 else Some (Some err, s2)
             | (None, s2) \<Rightarrow> Some (None, s2)))"


subsection \<open>The error kinds of the specification\<close>

definition UnknownMessageError :: error where
  "UnknownMessageError = ErrorString ''Unknown message.''"

definition MessageNotFoundError :: error where
  "MessageNotFoundError = ErrorString ''Message not found.''"

definition TimeoutError :: "string \<Rightarrow> error" where
  "TimeoutError rendering =
     ErrorString (''Timed out waiting for message after '' @ rendering @ ''.'')"

definition InvalidMessageError :: "string \<Rightarrow> error" where
  "InvalidMessageError quoted = ErrorString (''Invalid message: '' @ quoted)"

subsection \<open>A test double for the collaborators\<close>

text \<open>
  A transport that always answers: the world counts the connections dialled so far, and
  \<open>Dial\<close> hands out the next number. Concrete runs below change single fields of it.
\<close>

definition sample_payload :: bytes where
  "sample_payload = [65, 0, 120, 0, 121]"

definition env_ok :: "nat env" where
  "env_ok =
     \<lparr>config_GetString = (\<lambda>key w. (Inr ''127.0.0.1:11300'', w)),
      beanstalk_Dial = (\<lambda>network addr w. (Inr (Suc w), Suc w)),
      Conn_ListTubes = (\<lambda>c w. (None, w)),
      Conn_Put = (\<lambda>c body pri delay ttr w. ((7, None), w)),
      Conn_Reserve = (\<lambda>c timeout w. ((7, sample_payload, None), w)),
      Conn_Delete = (\<lambda>c i w. (None, w)),
      Conn_Release = (\<lambda>c i pri delay w. (None, w)),
      gob_Encode = (\<lambda>fs.
         if fs = [(''Action'', GobString ''A''), (''Args'', GobStrings [''x'', ''y''])]
         then Inr sample_payload else Inl (ErrorString ''gob: type not registered'')),
      gob_Decode = (\<lambda>body msg.
         if body = sample_payload then (msg\<lparr>Action := ''A'', Args := [''x'', ''y'']\<rparr>, None)
         else if body = [] then (msg, Some EOF)
         else (msg, Some (ErrorString ''unexpected EOF''))),
      Duration_String = (\<lambda>d. if d = 2 * Second then ''2s'' else ''?''),
      fmt_q = (\<lambda>body. CHR 0x22 # map (\<lambda>b. char_of (unat b)) body @ [CHR 0x22])\<rparr>"

definition state0 :: "nat state" where
  "state0 = \<lparr>conn = None, world = 0, trace = []\<rparr>"

text \<open>The state after the first acquisition against such a transport.\<close>

definition state1 :: "nat state" where
  "state1 =
     \<lparr>conn = Some 1, world = 1,
      trace = [CallGetString ''queue-server'', CallDial ''tcp'' ''127.0.0.1:11300'',
               CallListTubes 1]\<rparr>"

definition env_no_config :: "nat env" where
  "env_no_config =
     env_ok\<lparr>config_GetString := (\<lambda>key w. (Inl (ErrorString ''key not found''), w))\<rparr>"

definition env_flapping :: "nat env" where
  "env_flapping = env_ok\<lparr>Conn_ListTubes := (\<lambda>c w. (Some EOF, w))\<rparr>"

definition env_flaky :: "nat env" where
  "env_flaky =
     env_ok\<lparr>Conn_ListTubes := (\<lambda>c w. (if c \<le> 2 then Some EOF else None, w))\<rparr>"

definition env_corrupt :: "nat env" where
  "env_corrupt = env_ok\<lparr>Conn_Reserve := (\<lambda>c timeout w. ((9, [255], None), w))\<rparr>"

definition env_empty_body :: "nat env" where
  "env_empty_body = env_ok\<lparr>Conn_Reserve := (\<lambda>c timeout w. ((9, [], None), w))\<rparr>"

definition env_timeout :: "nat env" where
  "env_timeout =
     env_ok\<lparr>Conn_Reserve := (\<lambda>c timeout w.
       ((0, [], Some (ErrorString ''reserve-with-timeout: TIMED_OUT'')), w))\<rparr>"

definition env_not_found :: "nat env" where
  "env_not_found =
     env_ok\<lparr>Conn_Delete := (\<lambda>c i w. (Some (ErrorString ''delete: not found''), w)),
            Conn_Release := (\<lambda>c i pri delay w. (Some (ErrorString ''release: not found''), w))\<rparr>"


definition sample_Message :: Message where
  "sample_Message = \<lparr>Action = ''A'', Args = [''x'', ''y''], id_field = 0\<rparr>"

subsection \<open>Concurrent callers of \<open>connection\<close>\<close>

text \<open>
  Several goroutines inside \<open>connection\<close>, interleaved statement by statement. A
  thread is at a line of the source and holds the locals \<open>addr\<close> and \<open>err\<close> (\<open>addr_local\<close>, \<open>err_local\<close>); the
  package variables \<open>conn\<close> and \<open>mut\<close> (\<open>True\<close> when locked) are shared.
  \<open>mut.Lock()\<close> can only be taken by a thread while the mutex is free.
  \<open>L145\<close> is \<open>return connection()\<close>: the caller returns what the callee returns, so
  the thread starts over at line 129. \<open>Crashed\<close> stands for a run-time panic: a method
  called on the nil connection, or the unlock of a free mutex.
\<close>

datatype label =
    L129 | L130 | L131 | L132 | L133 | L136 | L137 | L138 | L139
  | L142 | L143 | L144 | L145 | L147 | L148 | Returned | Crashed

record thread =
  at_label :: label
  addr_local :: string
  err_local :: "error option"
  ret_value :: "(Conn option \<times> error option) option"

record 'w shared = "'w state" +
  mut :: bool
  threads :: "thread list"

definition goto :: "nat \<Rightarrow> thread \<Rightarrow> 'w shared \<Rightarrow> 'w shared" where
  "goto i th g = g\<lparr>threads := (threads g)[i := th]\<rparr>"

definition Lock :: "nat \<Rightarrow> thread \<Rightarrow> label \<Rightarrow> 'w shared \<Rightarrow> 'w shared option" where
  "Lock i th next g =
     (if mut g then None else Some (goto i (th\<lparr>at_label := next\<rparr>) (g\<lparr>mut := True\<rparr>)))"

definition Unlock :: "nat \<Rightarrow> thread \<Rightarrow> label \<Rightarrow> 'w shared \<Rightarrow> 'w shared option" where
  "Unlock i th next g =
     (if mut g then Some (goto i (th\<lparr>at_label := next\<rparr>) (g\<lparr>mut := False\<rparr>))
      else Some (goto i (th\<lparr>at_label := Crashed\<rparr>) g))"

text \<open>
  One statement of thread \<open>i\<close>; \<open>None\<close> when the thread cannot move (it waits for the
  mutex, it has returned, or there is no such thread).
\<close>

definition step :: "'w env \<Rightarrow> nat \<Rightarrow> 'w shared \<Rightarrow> 'w shared option" where
  "step E i g =
     (if length (threads g) \<le> i then None
      else
        (let th = threads g ! i in
         case at_label th of
           L129 \<Rightarrow> Lock i th L130 g
         | L130 \<Rightarrow> Some (goto i (th\<lparr>at_label := (if conn g = None then L131 else L142)\<rparr>) g)
         | L131 \<Rightarrow> Unlock i th L132 g
         | L132 \<Rightarrow>
             (case perform (CallGetString ''queue-server'')
                     (config_GetString E ''queue-server'') g of
                (Inl e, g1) \<Rightarrow> Some (goto i (th\<lparr>at_label := L133, err_local := Some e\<rparr>) g1)
              | (Inr a, g1) \<Rightarrow> Some (goto i (th\<lparr>at_label := L133, addr_local := a, err_local := None\<rparr>) g1))
         | L133 \<Rightarrow>
             (if err_local th \<noteq> None
              then Some (goto i (th\<lparr>at_label := Returned, ret_value := Some (None, Some (ErrorString
                     ''\"queue-server\" is not defined in config file.''))\<rparr>) g)
              else Some (goto i (th\<lparr>at_label := L136\<rparr>) g))
         | L136 \<Rightarrow> Lock i th L137 g
         | L137 \<Rightarrow>
             (case perform (CallDial ''tcp'' (addr_local th)) (beanstalk_Dial E ''tcp'' (addr_local th)) g of
                (Inl e, g1) \<Rightarrow>
                  Some (goto i (th\<lparr>at_label := L138, err_local := Some e\<rparr>) (g1\<lparr>conn := None\<rparr>))
              | (Inr c, g1) \<Rightarrow>
                  Some (goto i (th\<lparr>at_label := L142, err_local := None\<rparr>) (g1\<lparr>conn := Some c\<rparr>)))
         | L138 \<Rightarrow> Unlock i th L139 g
         | L139 \<Rightarrow> Some (goto i (th\<lparr>at_label := Returned, ret_value := Some (None, err_local th)\<rparr>) g)
         | L142 \<Rightarrow>
             (case conn g of
                None \<Rightarrow> Some (goto i (th\<lparr>at_label := Crashed\<rparr>) g)
              | Some c \<Rightarrow>
                  (case perform (CallListTubes c) (Conn_ListTubes E c) g of
                     (Some e, g1) \<Rightarrow> Some (goto i (th\<lparr>at_label := L143, err_local := Some e\<rparr>) g1)
                   | (None, g1) \<Rightarrow> Some (goto i (th\<lparr>at_label := L147, err_local := None\<rparr>) g1)))
         | L143 \<Rightarrow> Unlock i th L144 g
         | L144 \<Rightarrow> Some (goto i (th\<lparr>at_label := L145\<rparr>) (g\<lparr>conn := None\<rparr>))
         | L145 \<Rightarrow> Some (goto i (th\<lparr>at_label := L129\<rparr>) g)
         | L147 \<Rightarrow> Unlock i th L148 g
         | L148 \<Rightarrow> Some (goto i (th\<lparr>at_label := Returned, ret_value := Some (conn g, err_local th)\<rparr>) g)
         | Returned \<Rightarrow> None
         | Crashed \<Rightarrow> None))"

text \<open>A schedule names the thread that moves next.\<close>

fun run :: "'w env \<Rightarrow> nat list \<Rightarrow> 'w shared \<Rightarrow> 'w shared option" where
  "run E [] g = Some g"
| "run E (i # sched) g = (case step E i g of None \<Rightarrow> None | Some g' \<Rightarrow> run E sched g')"

definition entering :: thread where
  "entering = \<lparr>at_label = L129, addr_local = [], err_local = None, ret_value = None\<rparr>"

text \<open>\<open>n\<close> callers about to enter \<open>connection\<close>, no connection yet, the mutex free.\<close>

definition callers :: "nat \<Rightarrow> nat shared" where
  "callers n =
     \<lparr>conn = None, world = 0, trace = [], mut = False, threads = replicate n entering\<rparr>"

text \<open>The part of the shared state that the sequential functions work on.\<close>

definition package_state :: "'w shared \<Rightarrow> 'w state" where
  "package_state g = \<lparr>conn = conn g, world = world g, trace = trace g\<rparr>"

text \<open>What a thread has returned, as \<open>connection\<close> gives it.\<close>

definition returned_as :: "error + Conn \<Rightarrow> (Conn option \<times> error option) option" where
  "returned_as r = Some (case r of Inl e \<Rightarrow> (None, Some e) | Inr c \<Rightarrow> (Some c, None))"

definition is_Dial :: "call \<Rightarrow> bool" where
  "is_Dial c = (case c of CallDial network a \<Rightarrow> True | _ \<Rightarrow> False)"

text \<open>
  Two callers: both find \<open>conn == nil\<close> and give the mutex back (lines 129-131) before
  either goes on; then the first runs to its \<open>return\<close>, then the second.
\<close>

definition both_see_nil :: "nat list" where
  "both_see_nil = [0, 0, 0, 1, 1, 1, 0, 0, 0, 0, 0, 0, 0, 1, 1, 1, 1, 1, 1, 1]"

section \<open>Properties\<close>

subsection \<open>Unrolling \<open>connection\<close>\<close>

lemma connection_attempt:
  "connection E s = (case attempt E s of Inl r \<Rightarrow> Some r | Inr s' \<Rightarrow> connection E s')"
  by (subst connection.simps)
     (simp add: attempt_def split: option.split prod.split sum.split)

lemma connection_upto_sound:
  "connection_upto n E s = Some r \<Longrightarrow> connection E s = Some r"
proof (induction n arbitrary: s)
  case 0
  then show ?case by simp
next
  case (Suc n)
  show ?case
  proof (cases "attempt E s")
    case (Inl r')
    with Suc.prems show ?thesis by (simp add: connection_attempt)
  next
    case (Inr s')
    with Suc.prems have "connection_upto n E s' = Some r" by simp
    then have "connection E s' = Some r" by (rule Suc.IH)
    with Inr show ?thesis by (simp add: connection_attempt)
  qed
qed

subsection \<open>The end-anchored patterns\<close>

lemma MatchString_end_suffix: "MatchString_end lit s = suffix lit s"
proof
  assume "MatchString_end lit s"
  then obtain i where "drop i s = lit"
    unfolding MatchString_end_def list_ex_iff by blast
  then show "suffix lit s"
    by (metis suffix_drop)
next
  assume "suffix lit s"
  then obtain zs where s: "s = zs @ lit"
    by (auto simp: suffix_def)
  then have "drop (length zs) s = lit" "length zs \<le> length s"
    by simp_all
  then show "MatchString_end lit s"
    unfolding MatchString_end_def list_ex_iff
    by (intro bexI[of _ "length zs"]) auto
qed

subsection \<open>A first acquisition against the answering transport\<close>

lemma state0_conn_ok:
  "connection env_ok state0 =
     Some (Inr 1, \<lparr>conn = Some 1, world = 1,
        trace = [CallGetString ''queue-server'', CallDial ''tcp'' ''127.0.0.1:11300'',
                 CallListTubes 1]\<rparr>)"
  by (rule connection_upto_sound[of 1])
     (simp add: attempt_def perform_def env_ok_def state0_def)

subsection \<open>Messages without an id\<close>

text \<open>
  \<open>Release\<close> looks at the id before anything else: with the id unset it returns
  "Unknown message." and the state, the trace of calls included, is untouched.
\<close>

lemma Release_unset_id:
  "id_field m = 0 \<Longrightarrow> Release E m s = Some (Some UnknownMessageError, s)"
  by (simp add: Release_def UnknownMessageError_def)

text \<open>
  \<open>Delete\<close> acquires the connection first: with the id unset it returns what the
  acquisition returns when that fails, and "Unknown message." only after a successful
  acquisition with its calls.
\<close>

lemma Delete_unset_id:
  "id_field m = 0 \<Longrightarrow>
   Delete E m s =
     (case connection E s of
        None \<Rightarrow> None
      | Some (Inl e, s1) \<Rightarrow> Some (Some e, s1)
      | Some (Inr c, s1) \<Rightarrow> Some (Some UnknownMessageError, s1))"
  by (simp add: Delete_def UnknownMessageError_def split: option.split prod.split sum.split)

text \<open>
  C1: for a message whose id is unset, \<open>Delete\<close> and \<open>Release\<close> fail with
  "Unknown message." and make no call outside the package. \<open>Release\<close> does
  (\<open>Release_unset_id\<close>); \<open>Delete\<close> does not. With the zero message and no connection
  yet, \<open>Delete\<close> returns the configuration error when the configuration has no
  \<open>queue-server\<close> key; and against a transport that answers it returns
  "Unknown message." only after the configuration lookup, a dial and a probe.
\<close>

theorem Delete_unset_id_acquires_connection_first:
  "Delete env_no_config zero_Message state0 =
     Some (Some (ErrorString ''\"queue-server\" is not defined in config file.''),
           \<lparr>conn = None, world = 0, trace = [CallGetString ''queue-server'']\<rparr>)
   \<and> Delete env_ok zero_Message state0 =
     Some (Some UnknownMessageError,
           \<lparr>conn = Some 1, world = 1,
            trace = [CallGetString ''queue-server'', CallDial ''tcp'' ''127.0.0.1:11300'',
                     CallListTubes 1]\<rparr>)"
proof -
  have "connection_upto 1 env_no_config state0 =
     Some (Inl (ErrorString ''\"queue-server\" is not defined in config file.''),
           \<lparr>conn = None, world = 0, trace = [CallGetString ''queue-server'']\<rparr>)"
    by (simp add: attempt_def perform_def env_no_config_def env_ok_def state0_def)
  then have 1: "connection env_no_config state0 =
     Some (Inl (ErrorString ''\"queue-server\" is not defined in config file.''),
           \<lparr>conn = None, world = 0, trace = [CallGetString ''queue-server'']\<rparr>)"
    by (rule connection_upto_sound)
  show ?thesis
    by (simp add: Delete_def 1 state0_conn_ok zero_Message_def UnknownMessageError_def)
qed

subsection \<open>How often \<open>connection\<close> starts over\<close>

lemma connection_upto_complete:
  assumes "connection E s = Some r"
  shows "\<exists>n. connection_upto n E s = Some r"
proof (rule connection.raw_induct
    [where P = "\<lambda>E s r. \<exists>n. connection_upto n E s = Some r", OF _ assms])
  fix f :: "'a env \<Rightarrow> 'a state \<Rightarrow> ((error + Conn) \<times> 'a state) option"
  fix E s r
  assume IH: "\<And>E s r. f E s = Some r \<Longrightarrow> \<exists>n. connection_upto n E s = Some r"
  let ?body = "(case (case conn s of
              None \<Rightarrow>
                (case perform (CallGetString ''queue-server'')
                        (config_GetString E ''queue-server'') s of
                   (Inl e, s1) \<Rightarrow>
                     Inl (Inl (ErrorString
                       ''\"queue-server\" is not defined in config file.''), s1)
                 | (Inr a, s1) \<Rightarrow>
                     (case perform (CallDial ''tcp'' a) (beanstalk_Dial E ''tcp'' a) s1 of
                        (Inl e, s2) \<Rightarrow> Inl (Inl e, s2)
                      | (Inr c, s2) \<Rightarrow> Inr (c, s2\<lparr>conn := Some c\<rparr>)))
            | Some c \<Rightarrow> Inr (c, s)) of
        Inl r \<Rightarrow> Some r
      | Inr (c, s3) \<Rightarrow>
          (case perform (CallListTubes c) (Conn_ListTubes E c) s3 of
             (Some e, s4) \<Rightarrow> f E (s4\<lparr>conn := None\<rparr>)
           | (None, s4) \<Rightarrow> Some (Inr c, s4)))"
  assume "?body = Some r"
  moreover have "?body = (case attempt E s of Inl r \<Rightarrow> Some r | Inr s' \<Rightarrow> f E s')"
    by (simp add: attempt_def split: option.split prod.split sum.split)
  ultimately have body: "(case attempt E s of Inl r \<Rightarrow> Some r | Inr s' \<Rightarrow> f E s') = Some r"
    by simp
  show "\<exists>n. connection_upto n E s = Some r"
  proof (cases "attempt E s")
    case (Inl r')
    with body have "connection_upto (Suc 0) E s = Some r" by simp
    then show ?thesis ..
  next
    case (Inr s')
    with body have "f E s' = Some r" by simp
    then obtain n where "connection_upto n E s' = Some r"
      using IH by blast
    with Inr have "connection_upto (Suc n) E s = Some r" by simp
    then show ?thesis ..
  qed
qed

lemma attempt_retry:
  "attempt E s = Inr s' \<Longrightarrow> conn s' = None \<and> connection E s = connection E s'"
  by (subst connection_attempt)
     (auto simp: attempt_def split: option.splits prod.splits sum.splits)

lemma attempt_flapping: "\<exists>s'. attempt env_flapping s = Inr s'"
  by (simp add: attempt_def perform_def env_flapping_def env_ok_def split: option.split)

lemma connection_upto_flapping: "connection_upto n env_flapping s = None"
proof (induction n arbitrary: s)
  case 0
  show ?case by simp
next
  case (Suc n)
  obtain s' where "attempt env_flapping s = Inr s'"
    using attempt_flapping by blast
  with Suc.IH show ?case by simp
qed

text \<open>
  C2, as stated, fails: against a transport whose dial always succeeds and whose probe
  always fails, \<open>connection\<close> never returns. Every pass ends at line 145, which
  calls \<open>connection()\<close> again.
\<close>

theorem connection_flapping_never_returns: "connection env_flapping state0 = None"
proof (cases "connection env_flapping state0")
  case None
  then show ?thesis .
next
  case (Some r)
  then obtain n where "connection_upto n env_flapping state0 = Some r"
    using connection_upto_complete by blast
  then show ?thesis by (simp add: connection_upto_flapping)
qed

text \<open>
  C2, amended: when the probe fails, the shared connection is cleared and the whole
  acquisition starts over, and this happens as often as the probe fails; nothing bounds
  the number of passes. \<open>connection\<close> returns a result exactly when some number of
  passes reaches a \<open>return\<close> (the configuration lookup fails, the dial fails, or the
  probe succeeds), and that result is the one it returns.
\<close>

theorem connection_returns_iff:
  "(attempt E s = Inr s' \<longrightarrow> conn s' = None \<and> connection E s = connection E s')
   \<and> (connection E s = Some r \<longleftrightarrow> (\<exists>n. connection_upto n E s = Some r))"
  using attempt_retry connection_upto_sound connection_upto_complete by blast

text \<open>
  The probe fails on the first two connections and succeeds on the third: the
  acquisition starts over twice and dials three times.
\<close>

theorem connection_returns_iff_witness:
  "attempt env_flaky state0 =
     Inr \<lparr>conn = None, world = 1,
          trace = [CallGetString ''queue-server'', CallDial ''tcp'' ''127.0.0.1:11300'',
                   CallListTubes 1]\<rparr>
   \<and> connection env_flaky state0 =
     Some (Inr 3, \<lparr>conn = Some 3, world = 3,
        trace = [CallGetString ''queue-server'', CallDial ''tcp'' ''127.0.0.1:11300'',
                 CallListTubes 1,
                 CallGetString ''queue-server'', CallDial ''tcp'' ''127.0.0.1:11300'',
                 CallListTubes 2,
                 CallGetString ''queue-server'', CallDial ''tcp'' ''127.0.0.1:11300'',
                 CallListTubes 3]\<rparr>)"
proof -
  let ?s1 = "\<lparr>conn = None, world = 1::nat,
          trace = [CallGetString ''queue-server'', CallDial ''tcp'' ''127.0.0.1:11300'',
                   CallListTubes 1]\<rparr>"
  let ?r = "(Inr 3 :: error + Conn, \<lparr>conn = Some 3, world = 3::nat,
        trace = [CallGetString ''queue-server'', CallDial ''tcp'' ''127.0.0.1:11300'',
                 CallListTubes 1,
                 CallGetString ''queue-server'', CallDial ''tcp'' ''127.0.0.1:11300'',
                 CallListTubes 2,
                 CallGetString ''queue-server'', CallDial ''tcp'' ''127.0.0.1:11300'',
                 CallListTubes 3]\<rparr>)"
  have a: "attempt env_flaky state0 = Inr ?s1"
    by (simp add: attempt_def perform_def env_flaky_def env_ok_def state0_def)
  have u: "connection_upto 3 env_flaky state0 = Some ?r"
    by (simp add: numeral_3_eq_3 attempt_def perform_def env_flaky_def env_ok_def state0_def)
  from connection_returns_iff[of env_flaky state0 ?s1 ?r] a u show ?thesis
    by blast
qed

subsection \<open>Helpers for the runs against the test double\<close>

lemma first_acquisition:
  assumes "config_GetString E = config_GetString env_ok"
    and "beanstalk_Dial E = beanstalk_Dial env_ok"
    and "Conn_ListTubes E = Conn_ListTubes env_ok"
  shows "connection E state0 = Some (Inr 1, state1)"
  by (rule connection_upto_sound[of 1])
     (simp add: attempt_def perform_def assms env_ok_def state0_def state1_def)

lemma timeoutRegexp_suffix: "timeoutRegexp s = suffix ''TIMED_OUT'' s"
  by (simp only: timeoutRegexp_def MatchString_end_suffix)

lemma notFoundRegexp_suffix: "notFoundRegexp s = suffix ''not found'' s"
  by (simp only: notFoundRegexp_def MatchString_end_suffix)

subsection \<open>\<open>Get\<close>: what is done with a reserved payload\<close>

text \<open>
  C3: after a successful reservation of \<open>(i, body)\<close>, if the decoder returns an error
  other than \<open>io.EOF\<close>, \<open>Get\<close> calls \<open>Conn.Delete\<close> on \<open>i\<close>, drops whatever that
  returns, and returns no message and the error "Invalid message: " followed by the
  \<open>%q\<close> rendering of \<open>body\<close>. Otherwise, and so also when the decoder returns
  \<open>io.EOF\<close>, \<open>Get\<close> returns the message as the decoder left it, with id \<open>i\<close>, and no
  error, and nothing is deleted.
\<close>

theorem Get_undecodable_payload:
  assumes "connection E s = Some (Inr c, s1)"
    and "Conn_Reserve E c timeout (world s1) = ((i, body, None), w2)"
    and "gob_Decode E body zero_Message = (msg, derr)"
    and "Conn_Delete E c i w2 = (cleanup, w3)"
  shows "Get E timeout s =
     (if derr \<noteq> None \<and> derr \<noteq> Some EOF
      then Some ((None, Some (InvalidMessageError (fmt_q E body))),
                 s1\<lparr>world := w3, trace := trace s1 @ [CallReserve c timeout, CallDelete c i]\<rparr>)
      else Some ((Some (msg\<lparr>id_field := i\<rparr>), None),
                 s1\<lparr>world := w2, trace := trace s1 @ [CallReserve c timeout]\<rparr>))"
  using assms by (simp add: Get_def perform_def InvalidMessageError_def)

text \<open>
  A payload the decoder rejects is deleted and reported; an empty payload, on which the
  decoder returns \<open>io.EOF\<close>, is returned as a message.
\<close>

theorem Get_undecodable_payload_witness:
  "Get env_corrupt (2 * Second) state0 =
     Some ((None, Some (InvalidMessageError (fmt_q env_corrupt [255]))),
           state1\<lparr>trace := trace state1 @ [CallReserve 1 (2 * Second), CallDelete 1 9]\<rparr>)
   \<and> Get env_empty_body (2 * Second) state0 =
     Some ((Some (zero_Message\<lparr>id_field := 9\<rparr>), None),
           state1\<lparr>trace := trace state1 @ [CallReserve 1 (2 * Second)]\<rparr>)"
proof
  have c: "connection env_corrupt state0 = Some (Inr 1, state1)"
    by (rule first_acquisition) (simp_all add: env_corrupt_def)
  have r: "Conn_Reserve env_corrupt 1 (2 * Second) (world state1) = ((9, [255], None), 1)"
    by (simp add: env_corrupt_def state1_def)
  have d: "gob_Decode env_corrupt [255] zero_Message =
             (zero_Message, Some (ErrorString ''unexpected EOF''))"
    by (simp add: env_corrupt_def env_ok_def sample_payload_def)
  have x: "Conn_Delete env_corrupt 1 9 1 = (None, 1)"
    by (simp add: env_corrupt_def env_ok_def)
  show "Get env_corrupt (2 * Second) state0 =
     Some ((None, Some (InvalidMessageError (fmt_q env_corrupt [255]))),
           state1\<lparr>trace := trace state1 @ [CallReserve 1 (2 * Second), CallDelete 1 9]\<rparr>)"
    using Get_undecodable_payload[OF c r d x] by (simp add: state1_def)
next
  have c: "connection env_empty_body state0 = Some (Inr 1, state1)"
    by (rule first_acquisition) (simp_all add: env_empty_body_def)
  have r: "Conn_Reserve env_empty_body 1 (2 * Second) (world state1) = ((9, [], None), 1)"
    by (simp add: env_empty_body_def state1_def)
  have d: "gob_Decode env_empty_body [] zero_Message = (zero_Message, Some EOF)"
    by (simp add: env_empty_body_def env_ok_def sample_payload_def)
  have x: "Conn_Delete env_empty_body 1 9 1 = (None, 1)"
    by (simp add: env_empty_body_def env_ok_def)
  show "Get env_empty_body (2 * Second) state0 =
     Some ((Some (zero_Message\<lparr>id_field := 9\<rparr>), None),
           state1\<lparr>trace := trace state1 @ [CallReserve 1 (2 * Second)]\<rparr>)"
    using Get_undecodable_payload[OF c r d x] by (simp add: state1_def)
qed

subsection \<open>\<open>Get\<close>: a reservation that fails\<close>

text \<open>
  C4: when \<open>Conn.Reserve\<close> returns an error whose text ends in \<open>TIMED_OUT\<close>, \<open>Get\<close>
  returns no message and the error "Timed out waiting for message after T.", where T
  is the rendering of the timeout (\<open>Duration.String\<close>), so the text contains that
  rendering; any other error of \<open>Conn.Reserve\<close> is returned as it is.
\<close>

theorem Get_reserve_error:
  assumes "connection E s = Some (Inr c, s1)"
    and "Conn_Reserve E c timeout (world s1) = ((i, body, Some e), w2)"
  shows "Get E timeout s =
     Some ((None,
            Some (if suffix ''TIMED_OUT'' (Error e)
                  then TimeoutError (Duration_String E timeout) else e)),
           s1\<lparr>world := w2, trace := trace s1 @ [CallReserve c timeout]\<rparr>)
     \<and> sublist (Duration_String E timeout) (Error (TimeoutError (Duration_String E timeout)))"
proof
  show "Get E timeout s =
     Some ((None,
            Some (if suffix ''TIMED_OUT'' (Error e)
                  then TimeoutError (Duration_String E timeout) else e)),
           s1\<lparr>world := w2, trace := trace s1 @ [CallReserve c timeout]\<rparr>)"
    using assms by (simp add: Get_def perform_def TimeoutError_def timeoutRegexp_suffix)
  show "sublist (Duration_String E timeout) (Error (TimeoutError (Duration_String E timeout)))"
    unfolding TimeoutError_def Error.simps by (rule sublist_appendI)
qed

text \<open>A timeout of two seconds against a transport that answers \<open>TIMED_OUT\<close>.\<close>

theorem Get_reserve_error_witness:
  "Get env_timeout (2 * Second) state0 =
     Some ((None, Some (ErrorString ''Timed out waiting for message after 2s.'')),
           state1\<lparr>trace := trace state1 @ [CallReserve 1 (2 * Second)]\<rparr>)
   \<and> sublist ''2s'' ''Timed out waiting for message after 2s.''"
proof -
  have c: "connection env_timeout state0 = Some (Inr 1, state1)"
    by (rule first_acquisition) (simp_all add: env_timeout_def)
  have r: "Conn_Reserve env_timeout 1 (2 * Second) (world state1) =
             ((0, [], Some (ErrorString ''reserve-with-timeout: TIMED_OUT'')), 1)"
    by (simp add: env_timeout_def state1_def)
  have t: "suffix ''TIMED_OUT'' ''reserve-with-timeout: TIMED_OUT''"
    by (simp add: suffix_def)
  have d: "Duration_String env_timeout (2 * Second) = ''2s''"
    by (simp add: env_timeout_def env_ok_def)
  show ?thesis
    using Get_reserve_error[OF c r] t d by (simp add: state1_def TimeoutError_def)
qed

subsection \<open>\<open>Delete\<close> and \<open>Release\<close>: the answer of the transport\<close>

text \<open>
  C5: for a message with a non-zero id and an acquired connection, \<open>Delete\<close> and
  \<open>Release\<close> return "Message not found." when the transport's error text ends in
  "not found", the transport's error itself otherwise, and nil when the transport
  returns nil.
\<close>

theorem Delete_Release_transport_answer:
  assumes "id_field m \<noteq> 0"
    and "connection E s = Some (Inr c, s1)"
    and "Conn_Delete E c (id_field m) (world s1) = (d, wd)"
    and "Conn_Release E c (id_field m) 1 0 (world s1) = (r, wr)"
  shows "Delete E m s =
     Some ((case d of None \<Rightarrow> None
            | Some e \<Rightarrow> if suffix ''not found'' (Error e)
                        then Some MessageNotFoundError else Some e),
           s1\<lparr>world := wd, trace := trace s1 @ [CallDelete c (id_field m)]\<rparr>)
   \<and> Release E m s =
     Some ((case r of None \<Rightarrow> None
            | Some e \<Rightarrow> if suffix ''not found'' (Error e)
                        then Some MessageNotFoundError else Some e),
           s1\<lparr>world := wr, trace := trace s1 @ [CallRelease c (id_field m) 1 0]\<rparr>)"
  using assms
  by (simp add: Delete_def Release_def perform_def MessageNotFoundError_def
      notFoundRegexp_suffix split: option.split)

text \<open>A stale id: the transport answers "not found" to both.\<close>

theorem Delete_Release_transport_answer_witness:
  "Delete env_not_found (zero_Message\<lparr>id_field := 7\<rparr>) state0 =
     Some (Some MessageNotFoundError, state1\<lparr>trace := trace state1 @ [CallDelete 1 7]\<rparr>)
   \<and> Release env_not_found (zero_Message\<lparr>id_field := 7\<rparr>) state0 =
     Some (Some MessageNotFoundError, state1\<lparr>trace := trace state1 @ [CallRelease 1 7 1 0]\<rparr>)"
proof -
  let ?m = "zero_Message\<lparr>id_field := 7\<rparr>"
  have i: "id_field ?m \<noteq> 0" by simp
  have c: "connection env_not_found state0 = Some (Inr 1, state1)"
    by (rule first_acquisition) (simp_all add: env_not_found_def)
  have d: "Conn_Delete env_not_found 1 (id_field ?m) (world state1) =
             (Some (ErrorString ''delete: not found''), 1)"
    by (simp add: env_not_found_def state1_def)
  have r: "Conn_Release env_not_found 1 (id_field ?m) 1 0 (world state1) =
             (Some (ErrorString ''release: not found''), 1)"
    by (simp add: env_not_found_def state1_def)
  have t: "suffix ''not found'' ''delete: not found''" "suffix ''not found'' ''release: not found''"
    by (simp_all add: suffix_def)
  show ?thesis
    using Delete_Release_transport_answer[OF i c d r] t by (simp add: state1_def)
qed

subsection \<open>\<open>Get\<close>: a decode that stops at once with \<open>io.EOF\<close>\<close>

text \<open>
  C10: when the decoder returns \<open>io.EOF\<close> and has filled no field, \<open>Get\<close> returns the
  zero message (empty action, no arguments) with the reservation id as its id, and a
  nil error.
\<close>

theorem Get_empty_decode:
  assumes "connection E s = Some (Inr c, s1)"
    and "Conn_Reserve E c timeout (world s1) = ((i, body, None), w2)"
    and "gob_Decode E body zero_Message = (zero_Message, Some EOF)"
  shows "Get E timeout s =
     Some ((Some \<lparr>Action = [], Args = [], id_field = i\<rparr>, None),
           s1\<lparr>world := w2, trace := trace s1 @ [CallReserve c timeout]\<rparr>)"
  using assms by (simp add: Get_def perform_def zero_Message_def)

text \<open>An empty payload.\<close>

theorem Get_empty_decode_witness:
  "Get env_empty_body (2 * Second) state0 =
     Some ((Some \<lparr>Action = [], Args = [], id_field = 9\<rparr>, None),
           state1\<lparr>trace := trace state1 @ [CallReserve 1 (2 * Second)]\<rparr>)"
proof -
  have c: "connection env_empty_body state0 = Some (Inr 1, state1)"
    by (rule first_acquisition) (simp_all add: env_empty_body_def)
  have r: "Conn_Reserve env_empty_body 1 (2 * Second) (world state1) = ((9, [], None), 1)"
    by (simp add: env_empty_body_def state1_def)
  have d: "gob_Decode env_empty_body [] zero_Message = (zero_Message, Some EOF)"
    by (simp add: env_empty_body_def env_ok_def sample_payload_def)
  show ?thesis
    using Get_empty_decode[OF c r d] by (simp add: state1_def)
qed

subsection \<open>The calls of \<open>connection\<close> and of \<open>Put\<close>\<close>




lemma gob_fields_exported:
  "gob_fields m = [(''Action'', GobString (Action m)), (''Args'', GobStrings (Args m))]"
  by (simp add: gob_fields_def struct_fields_def is_exported_def)

lemma Put_cases:
  assumes "Put E m s = Some (e, m1, s1)"
  obtains (no_connection) x where "connection E s = Some (Inl x, s1)" "e = Some x" "m1 = m"
  | (no_payload) c x where "connection E s = Some (Inr c, s1)"
      "gob_Encode E (gob_fields m) = Inl x" "e = Some x" "m1 = m"
  | (submitted) c s0 buf i w2 where "connection E s = Some (Inr c, s0)"
      "gob_Encode E (gob_fields m) = Inr buf"
      "Conn_Put E c buf 1 0 60000000000 (world s0) = ((i, e), w2)"
      "m1 = m\<lparr>id_field := i\<rparr>"
      "s1 = s0\<lparr>world := w2, trace := trace s0 @ [CallPut c buf 1 0 60000000000]\<rparr>"
  using assms
  by (auto simp: Put_def perform_def split: option.splits prod.splits sum.splits)

lemma Put_ok_run:
  "Put env_ok sample_Message state0 =
     Some (None, sample_Message\<lparr>id_field := 7\<rparr>,
           state1\<lparr>trace := trace state1 @ [CallPut 1 sample_payload 1 0 60000000000]\<rparr>)"
proof -
  have c: "connection env_ok state0 = Some (Inr 1, state1)"
    by (rule first_acquisition) simp_all
  show ?thesis
    by (simp add: Put_def c)
       (simp add: perform_def gob_fields_exported sample_Message_def env_ok_def state1_def)
qed



subsection \<open>\<open>Put\<close>: the id of the message afterwards\<close>




subsection \<open>\<open>Put\<close>: the payload\<close>

text \<open>
  C6: the encoder is given the exported fields of the message, which are \<open>Action\<close>
  and \<open>Args\<close> and not \<open>id\<close>. Two messages with the same action and arguments make
  \<open>Put\<close> return the same error and leave the same state, hence the same calls with
  the same payload, whatever their ids. And when \<open>Put\<close> has succeeded, the payload
  it submitted is the encoding \<open>buf\<close> of the message; if a later reservation returns
  \<open>buf\<close> and the decoder restores from \<open>buf\<close> the fields that were encoded, \<open>Get\<close>
  returns the message with the same action and arguments, and the reservation id.
\<close>

theorem Put_payload_without_id:
  "gob_fields m = [(''Action'', GobString (Action m)), (''Args'', GobStrings (Args m))]
   \<and> (Action m' = Action m \<and> Args m' = Args m \<longrightarrow>
        map_option (\<lambda>(e, m1, s1). (e, s1)) (Put E m' s) =
        map_option (\<lambda>(e, m1, s1). (e, s1)) (Put E m s))
   \<and> (Put E m s = Some (None, m1, s1)
        \<and> gob_Encode E (gob_fields m) = Inr buf
        \<and> connection E s1 = Some (Inr c, s2)
        \<and> Conn_Reserve E c timeout (world s2) = ((i, buf, None), w3)
        \<and> gob_Decode E buf zero_Message = (d, None)
        \<and> gob_fields d = gob_fields m \<longrightarrow>
        (\<exists>c0. last (trace s1) = CallPut c0 buf 1 0 60000000000)
        \<and> Get E timeout s1 =
            Some ((Some (m\<lparr>id_field := i\<rparr>), None),
                  s2\<lparr>world := w3, trace := trace s2 @ [CallReserve c timeout]\<rparr>))"
proof (intro conjI impI)
  show "gob_fields m = [(''Action'', GobString (Action m)), (''Args'', GobStrings (Args m))]"
    by (rule gob_fields_exported)
next
  assume "Action m' = Action m \<and> Args m' = Args m"
  then have "gob_fields m' = gob_fields m"
    by (simp add: gob_fields_exported)
  then show "map_option (\<lambda>(e, m1, s1). (e, s1)) (Put E m' s) =
        map_option (\<lambda>(e, m1, s1). (e, s1)) (Put E m s)"
    by (simp add: Put_def split: option.split prod.split sum.split)
next
  assume a: "Put E m s = Some (None, m1, s1)
        \<and> gob_Encode E (gob_fields m) = Inr buf
        \<and> connection E s1 = Some (Inr c, s2)
        \<and> Conn_Reserve E c timeout (world s2) = ((i, buf, None), w3)
        \<and> gob_Decode E buf zero_Message = (d, None)
        \<and> gob_fields d = gob_fields m"
  then have "Put E m s = Some (None, m1, s1)" by simp
  then show "\<exists>c0. last (trace s1) = CallPut c0 buf 1 0 60000000000"
    using a by (cases rule: Put_cases) auto
  from a have "Action d = Action m" "Args d = Args m"
    by (simp_all add: gob_fields_exported)
  then have "d\<lparr>id_field := i\<rparr> = m\<lparr>id_field := i\<rparr>"
    by simp
  with a show "Get E timeout s1 =
            Some ((Some (m\<lparr>id_field := i\<rparr>), None),
                  s2\<lparr>world := w3, trace := trace s2 @ [CallReserve c timeout]\<rparr>)"
    by (simp add: Get_def perform_def)
qed

text \<open>The sample message, put with two different ids, and got back.\<close>

theorem Put_payload_without_id_witness:
  "map_option (\<lambda>(e, m1, s1). (e, s1)) (Put env_ok (sample_Message\<lparr>id_field := 5\<rparr>) state0) =
   map_option (\<lambda>(e, m1, s1). (e, s1)) (Put env_ok sample_Message state0)
   \<and> Put env_ok sample_Message state0 =
     Some (None, sample_Message\<lparr>id_field := 7\<rparr>,
           state1\<lparr>trace := trace state1 @ [CallPut 1 sample_payload 1 0 60000000000]\<rparr>)
   \<and> Get env_ok (2 * Second)
       (state1\<lparr>trace := trace state1 @ [CallPut 1 sample_payload 1 0 60000000000]\<rparr>) =
     Some ((Some (sample_Message\<lparr>id_field := 7\<rparr>), None),
           state1\<lparr>trace := trace state1 @
             [CallPut 1 sample_payload 1 0 60000000000, CallListTubes 1,
              CallReserve 1 (2 * Second)]\<rparr>)"
proof -
  let ?s1 = "state1\<lparr>trace := trace state1 @ [CallPut 1 sample_payload 1 0 60000000000]\<rparr>"
  let ?s2 = "state1\<lparr>trace := trace state1 @
               [CallPut 1 sample_payload 1 0 60000000000, CallListTubes 1]\<rparr>"
  let ?m' = "sample_Message\<lparr>id_field := 5\<rparr>"
  have same: "Action ?m' = Action sample_Message \<and> Args ?m' = Args sample_Message"
    by simp
  have e: "gob_Encode env_ok (gob_fields sample_Message) = Inr sample_payload"
    by (simp add: gob_fields_exported sample_Message_def env_ok_def)
  have "connection_upto 1 env_ok ?s1 = Some (Inr 1, ?s2)"
    by (simp add: attempt_def perform_def env_ok_def state1_def)
  then have c: "connection env_ok ?s1 = Some (Inr 1, ?s2)"
    by (rule connection_upto_sound)
  have r: "Conn_Reserve env_ok 1 (2 * Second) (world ?s2) = ((7, sample_payload, None), 1)"
    by (simp add: env_ok_def state1_def)
  have d: "gob_Decode env_ok sample_payload zero_Message =
             (sample_Message, None)"
    by (simp add: env_ok_def zero_Message_def sample_Message_def)
  have f: "gob_fields sample_Message = gob_fields sample_Message"
    by simp
  from Put_payload_without_id
    [of sample_Message ?m' env_ok state0 "sample_Message\<lparr>id_field := 7\<rparr>" ?s1
        sample_payload 1 ?s2 "2 * Second" 7 1 sample_Message]
    same Put_ok_run e c r d f
  show ?thesis
    by (simp add: state1_def)
qed

subsection \<open>One caller alone in the interleaving model\<close>

text \<open>
  The interleaving model and the sequential function describe the same code: a thread
  that runs alone from line 129 with the mutex free makes one pass as \<open>attempt\<close>
  does, and returns whatever \<open>connection\<close> returns, in the same state.
\<close>

lemmas step_simps = step_def goto_def Lock_def Unlock_def perform_def package_state_def
  attempt_def returned_as_def

lemma one_caller_pass:
  assumes "threads g = [th]" and "at_label th = L129" and "mut g = False"
  shows "\<exists>sched g'. run E sched g = Some g' \<and> mut g' = False
           \<and> length (threads g') = 1
           \<and> (case attempt E (package_state g) of
                 Inl (r, s1) \<Rightarrow>
                   package_state g' = s1 \<and> at_label (threads g' ! 0) = Returned
                   \<and> ret_value (threads g' ! 0) = returned_as r
               | Inr s' \<Rightarrow> package_state g' = s' \<and> at_label (threads g' ! 0) = L129)"
proof (cases "conn g")
  case None
  obtain r1 w1 where cfg: "config_GetString E ''queue-server'' (world g) = (r1, w1)"
    by (cases "config_GetString E ''queue-server'' (world g)")
  show ?thesis
  proof (cases r1)
    case (Inl e)
    show ?thesis
      using assms None cfg Inl
      by (intro exI[of _ "[0, 0, 0, 0, 0]"]) (simp add: step_simps)
  next
    case (Inr a)
    obtain r2 w2 where dial: "beanstalk_Dial E ''tcp'' a w1 = (r2, w2)"
      by (cases "beanstalk_Dial E ''tcp'' a w1")
    show ?thesis
    proof (cases r2)
      case (Inl e)
      show ?thesis
        using assms None cfg Inr dial Inl
        by (intro exI[of _ "[0, 0, 0, 0, 0, 0, 0, 0, 0]"]) (simp add: step_simps)
    next
      case c: (Inr c)
      obtain r3 w3 where probe: "Conn_ListTubes E c w2 = (r3, w3)"
        by (cases "Conn_ListTubes E c w2")
      show ?thesis
      proof (cases r3)
        case None': None
        show ?thesis
          using assms None cfg Inr dial c probe None'
          by (intro exI[of _ "[0, 0, 0, 0, 0, 0, 0, 0, 0, 0]"]) (simp add: step_simps)
      next
        case (Some e)
        show ?thesis
          using assms None cfg Inr dial c probe Some
          by (intro exI[of _ "[0, 0, 0, 0, 0, 0, 0, 0, 0, 0, 0]"]) (simp add: step_simps)
      qed
    qed
  qed
next
  case (Some c)
  obtain r3 w3 where probe: "Conn_ListTubes E c (world g) = (r3, w3)"
    by (cases "Conn_ListTubes E c (world g)")
  show ?thesis
  proof (cases r3)
    case None
    show ?thesis
      using assms Some probe None
      by (intro exI[of _ "[0, 0, 0, 0, 0]"]) (simp add: step_simps)
  next
    case e: (Some e)
    show ?thesis
      using assms Some probe e
      by (intro exI[of _ "[0, 0, 0, 0, 0, 0]"]) (simp add: step_simps)
  qed
qed

lemma run_append:
  "run E (xs @ ys) g = (case run E xs g of None \<Rightarrow> None | Some g' \<Rightarrow> run E ys g')"
  by (induction xs arbitrary: g) (simp_all split: option.split)

lemma one_caller_connection_upto:
  assumes "connection_upto n E (package_state g) = Some (r, s1)"
    and "threads g = [th]" and "at_label th = L129" and "mut g = False"
  shows "\<exists>sched g'. run E sched g = Some g' \<and> package_state g' = s1
           \<and> at_label (threads g' ! 0) = Returned
           \<and> ret_value (threads g' ! 0) = returned_as r"
  using assms
proof (induction n arbitrary: g th)
  case 0
  then show ?case by simp
next
  case (Suc n)
  obtain sched g1 where pass: "run E sched g = Some g1" "mut g1 = False"
      "length (threads g1) = 1"
      "case attempt E (package_state g) of
         Inl (r, s1) \<Rightarrow>
           package_state g1 = s1 \<and> at_label (threads g1 ! 0) = Returned
           \<and> ret_value (threads g1 ! 0) = returned_as r
       | Inr s' \<Rightarrow> package_state g1 = s' \<and> at_label (threads g1 ! 0) = L129"
    using one_caller_pass[OF Suc.prems(2-4), of E] by blast
  show ?case
  proof (cases "attempt E (package_state g)")
    case (Inl x)
    with Suc.prems(1) have "x = (r, s1)" by simp
    with Inl pass show ?thesis by auto
  next
    case (Inr s')
    with Suc.prems(1) have "connection_upto n E s' = Some (r, s1)" by simp
    moreover from Inr pass have g1: "package_state g1 = s'" "at_label (threads g1 ! 0) = L129"
      by simp_all
    moreover from pass(3) have "threads g1 = [threads g1 ! 0]"
      by (cases "threads g1") simp_all
    ultimately obtain sched' g' where "run E sched' g1 = Some g'" "package_state g' = s1"
        "at_label (threads g' ! 0) = Returned" "ret_value (threads g' ! 0) = returned_as r"
      using Suc.IH[of g1 "threads g1 ! 0"] pass(2) by blast
    with pass(1) have "run E (sched @ sched') g = Some g' \<and> package_state g' = s1
        \<and> at_label (threads g' ! 0) = Returned \<and> ret_value (threads g' ! 0) = returned_as r"
      by (simp add: run_append)
    then show ?thesis by blast
  qed
qed

lemma one_caller_connection:
  assumes "connection E (package_state g) = Some (r, s1)"
    and "threads g = [th]" and "at_label th = L129" and "mut g = False"
  shows "\<exists>sched g'. run E sched g = Some g' \<and> package_state g' = s1
           \<and> at_label (threads g' ! 0) = Returned
           \<and> ret_value (threads g' ! 0) = returned_as r"
proof -
  from assms(1) obtain n where "connection_upto n E (package_state g) = Some (r, s1)"
    using connection_upto_complete by blast
  then show ?thesis
    using assms(2-4) by (rule one_caller_connection_upto)
qed

subsection \<open>Two concurrent callers of \<open>connection\<close>\<close>

text \<open>
  C9: with no connection yet, any number of simultaneous callers cause one dial and all
  receive the same connection. The source gives the mutex back at line 131, between
  the test \<open>conn == nil\<close> and the dial, and does not test again after line 136. In
  the schedule \<open>both_see_nil\<close> both callers pass the test before either dials: the
  transport is dialled twice, the first caller returns connection 1 and the second
  returns connection 2.
\<close>

theorem two_callers_two_dials:
  "run env_ok both_see_nil (callers 2) =
     Some \<lparr>conn = Some 2, world = 2,
           trace = [CallGetString ''queue-server'',
                    CallDial ''tcp'' ''127.0.0.1:11300'', CallListTubes 1,
                    CallGetString ''queue-server'',
                    CallDial ''tcp'' ''127.0.0.1:11300'', CallListTubes 2],
           mut = False,
           threads =
             [\<lparr>at_label = Returned, addr_local = ''127.0.0.1:11300'', err_local = None,
               ret_value = Some (Some 1, None)\<rparr>,
              \<lparr>at_label = Returned, addr_local = ''127.0.0.1:11300'', err_local = None,
               ret_value = Some (Some 2, None)\<rparr>]\<rparr>"
  by (simp add: both_see_nil_def callers_def entering_def numeral_2_eq_2 step_def goto_def
      Lock_def Unlock_def perform_def env_ok_def)

end
